theory Spec2Isabelle
  imports Complex_Main
begin

section \<open>Neural ODE model of \<^verbatim>\<open>models/neural_odes.py\<close>\<close>

text \<open>
  The embedding follows the Python module class by class. Floating-point numbers are
  idealised as reals. A tensor of rank two (a batch of feature vectors) is a list of
  rows; a batch with no rows carries no width. Python exceptions are values of
  \<open>error\<close>; a call that raises returns \<open>Inl\<close> of it, and the state after a raise is
  not followed. A call that may overwrite its tensor argument in place returns the
  content of that tensor after the call next to its result.
\<close>

subsection \<open>Exceptions, sequencing, indexing\<close>

datatype error =
  KeyError | IndexError | AttributeError | RuntimeError | AssertionError | FileNotFoundError

definition and_then :: "error + 'a \<Rightarrow> ('a \<Rightarrow> error + 'b) \<Rightarrow> error + 'b" where
  "and_then r f = (case r of Inl e \<Rightarrow> Inl e | Inr v \<Rightarrow> f v)"

text \<open>
  Indexing of a Python sequence and of \<^verbatim>\<open>nn.Sequential\<close>: an index in
  \<open>[-size, size)\<close> is taken modulo the size, any other raises IndexError.
\<close>

definition getitem :: "'a list \<Rightarrow> int \<Rightarrow> error + 'a" where
  "getitem xs i =
     (let size = int (length xs)
      in if - size \<le> i \<and> i < size then Inr (xs ! nat (i mod size)) else Inl IndexError)"

text \<open>\<^verbatim>\<open>int(r)\<close> on a float truncates towards zero.\<close>

definition py_int :: "real \<Rightarrow> int" where
  "py_int r = (if 0 \<le> r then \<lfloor>r\<rfloor> else \<lceil>r\<rceil>)"

subsection \<open>Hyperparameters and dictionaries\<close>

definition T :: int where
  "T = 10"

definition time_steps :: int where
  "time_steps = 15"

definition dt :: real where
  "dt = real_of_int T / real_of_int time_steps"

text \<open>
  An activation module with its constructor arguments: \<^verbatim>\<open>nn.ReLU(inplace)\<close>,
  \<^verbatim>\<open>nn.LeakyReLU(negative_slope, inplace)\<close>.
\<close>

datatype activation = Tanh | ReLU bool | Sigmoid | LeakyReLU real bool

fun act_fn :: "activation \<Rightarrow> real \<Rightarrow> real" where
  "act_fn Tanh v = tanh v"
| "act_fn (ReLU ip) v = max 0 v"
| "act_fn Sigmoid v = 1 / (1 + exp (- v))"
| "act_fn (LeakyReLU negative_slope ip) v = max 0 v + negative_slope * min 0 v"

fun inplace :: "activation \<Rightarrow> bool" where
  "inplace Tanh = False"
| "inplace (ReLU ip) = ip"
| "inplace Sigmoid = False"
| "inplace (LeakyReLU negative_slope ip) = ip"

definition activations :: "string \<rightharpoonup> activation" where
  "activations =
     [''tanh'' \<mapsto> Tanh,
      ''relu'' \<mapsto> ReLU True,
      ''sigmoid'' \<mapsto> Sigmoid,
      ''leakyrelu'' \<mapsto> LeakyReLU (25 / 100) True]"

definition species_tbl :: "string \<rightharpoonup> int" where
  "species_tbl = [''inside'' \<mapsto> - 1, ''outside'' \<mapsto> 0, ''bottleneck'' \<mapsto> 1]"

definition lookup :: "('k \<rightharpoonup> 'v) \<Rightarrow> 'k \<Rightarrow> error + 'v" where
  "lookup m k = (case m k of None \<Rightarrow> Inl KeyError | Some v \<Rightarrow> Inr v)"

subsection \<open>Tensor operations\<close>

type_synonym batch = "real list list"

text \<open>
  Calling an activation module on a tensor: the result, and the content of the
  argument afterwards (overwritten with the result when the module works in place).
\<close>

definition apply_act :: "activation \<Rightarrow> batch \<Rightarrow> batch \<times> batch" where
  "apply_act a x =
     (let y = map (map (act_fn a)) x in (y, if inplace a then y else x))"

definition dot :: "real list \<Rightarrow> real list \<Rightarrow> real" where
  "dot r c = sum_list (map2 (*) r c)"

text \<open>
  \<^verbatim>\<open>x.matmul(w.t())\<close> for \<open>x\<close> of shape (batch, in) and \<open>w\<close> of shape (out, in), and
  the addition of a bias of shape (out). A width that does not fit raises
  RuntimeError. Layers are as \<^verbatim>\<open>nn.Linear\<close> builds them, the bias as long as the
  weight has rows; broadcasting of a bias of length one is not modelled.
\<close>

definition matmul_t :: "batch \<Rightarrow> real list list \<Rightarrow> error + batch" where
  "matmul_t x w =
     (if list_all (\<lambda>r. list_all (\<lambda>c. length r = length c) w) x
      then Inr (map (\<lambda>r. map (\<lambda>c. dot r c) w) x)
      else Inl RuntimeError)"

definition add_bias :: "batch \<Rightarrow> real list \<Rightarrow> error + batch" where
  "add_bias y b =
     (if list_all (\<lambda>r. length r = length b) y
      then Inr (map (\<lambda>r. map2 (+) r b) y)
      else Inl RuntimeError)"

record linear =
  weight :: "real list list"
  bias :: "real list"

text \<open>
  \<^verbatim>\<open>nn.Linear(in_features, out_features)\<close>: a weight of shape (out, in) and a bias
  of shape (out). The random initial values are an argument: entry \<open>(i, j)\<close> of the
  weight is \<open>w0 i j\<close>, entry \<open>i\<close> of the bias is \<open>b0 i\<close>.
\<close>

definition Linear :: "nat \<Rightarrow> nat \<Rightarrow> (nat \<Rightarrow> nat \<Rightarrow> real) \<Rightarrow> (nat \<Rightarrow> real) \<Rightarrow> linear" where
  "Linear in_features out_features w0 b0 =
     \<lparr>weight = map (\<lambda>i. map (\<lambda>j. w0 i j) [0..<in_features]) [0..<out_features],
      bias = map b0 [0..<out_features]\<rparr>"

subsection \<open>Dynamics\<close>

text \<open>
  The attributes \<open>fc1_time\<close>, \<open>fc3_time\<close> and \<open>fc2_time\<close> exist only on the branch of
  the constructor that sets them; reading a missing one raises AttributeError.
\<close>

record Dynamics =
  device :: string
  augment_dim :: nat
  data_dim :: nat
  input_dim :: nat
  hidden_dim :: nat
  nfe :: int
  non_linearity :: activation
  species :: int
  fc1_time :: "linear list option"
  fc3_time :: "linear list option"
  fc2_time :: "linear list option"

text \<open>
  The initial values of the layers the constructor creates: the \<open>n\<close>-th layer
  created takes its weight entries from \<open>fst (init n)\<close> and its bias entries from
  \<open>snd (init n)\<close>.
\<close>

type_synonym initializer = "nat \<Rightarrow> (nat \<Rightarrow> nat \<Rightarrow> real) \<times> (nat \<Rightarrow> real)"

definition blocks_of :: "initializer \<Rightarrow> nat \<Rightarrow> nat \<Rightarrow> nat \<Rightarrow> linear list" where
  "blocks_of init offset in_features out_features =
     map (\<lambda>n. Linear in_features out_features (fst (init (offset + n))) (snd (init (offset + n))))
       [0..<nat time_steps]"

definition Dynamics_init ::
  "string \<Rightarrow> nat \<Rightarrow> nat \<Rightarrow> nat \<Rightarrow> string \<Rightarrow> initializer \<Rightarrow> error + Dynamics" where
  "Dynamics_init dev data_dim' hidden_dim' augment_dim' non_linearity' init =
     and_then (lookup activations non_linearity') (\<lambda>act.
     and_then (lookup species_tbl ''inside'') (\<lambda>sp.
       let self = \<lparr>device = dev, augment_dim = augment_dim', data_dim = data_dim',
                   input_dim = data_dim' + augment_dim', hidden_dim = hidden_dim',
                   nfe = 0, non_linearity = act, species = sp,
                   fc1_time = None, fc3_time = None, fc2_time = None\<rparr>
       in if 0 < species self
          then Inr (self\<lparr>fc1_time := Some (blocks_of init 0 (input_dim self) hidden_dim'),
                         fc3_time := Some (blocks_of init (nat time_steps) hidden_dim' (input_dim self))\<rparr>)
          else Inr (self\<lparr>fc2_time := Some (blocks_of init 0 hidden_dim' hidden_dim')\<rparr>)))"

definition attr :: "'a option \<Rightarrow> error + 'a" where
  "attr a = (case a of None \<Rightarrow> Inl AttributeError | Some v \<Rightarrow> Inr v)"

definition step_index :: "real \<Rightarrow> int" where
  "step_index t = py_int (t / dt)"

text \<open>
  \<^verbatim>\<open>Dynamics.forward(t, x)\<close> returns the derivative, the content of \<open>x\<close> after the
  call, and the object with its counter advanced.
\<close>

definition Dynamics_forward ::
  "Dynamics \<Rightarrow> real \<Rightarrow> batch \<Rightarrow> error + (batch \<times> batch \<times> Dynamics)" where
  "Dynamics_forward self0 t x =
     (let self = self0\<lparr>nfe := nfe self0 + 1\<rparr>;
          k = step_index t
      in if species self < 1 then
           and_then (attr (fc2_time self)) (\<lambda>fc2.
           and_then (getitem fc2 k) (\<lambda>layer.
             let w_t = weight layer; b_t = bias layer
             in if species self < 0 then
                  (case apply_act (non_linearity self) x of (sx, x') \<Rightarrow>
                     and_then (matmul_t sx w_t) (\<lambda>m.
                     and_then (add_bias m b_t) (\<lambda>out. Inr (out, x', self))))
                else
                  and_then (matmul_t x w_t) (\<lambda>m.
                  and_then (add_bias m b_t) (\<lambda>pre.
                    Inr (fst (apply_act (non_linearity self) pre), x, self)))))
         else
           and_then (attr (fc1_time self)) (\<lambda>fc1.
           and_then (getitem fc1 k) (\<lambda>layer1.
           and_then (attr (fc3_time self)) (\<lambda>fc3.
           and_then (getitem fc3 k) (\<lambda>layer3.
             let w1_t = weight layer1; b1_t = bias layer1;
                 w2_t = weight layer3; b2_t = bias layer3
             in and_then (matmul_t x w1_t) (\<lambda>m1.
                and_then (add_bias m1 b1_t) (\<lambda>pre1.
                  let out1 = fst (apply_act (non_linearity self) pre1)
                  in and_then (matmul_t out1 w2_t) (\<lambda>m2.
                     and_then (add_bias m2 b2_t) (\<lambda>pre2.
                       Inr (fst (apply_act (non_linearity self) pre2), x, self))))))))))"

subsection \<open>The ODE integration collaborator\<close>

text \<open>
  \<^verbatim>\<open>odeint\<close> and \<^verbatim>\<open>odeint_adjoint\<close> belong to the library \<^verbatim>\<open>torchdiffeq\<close>, which
  is not part of the repository. The flow takes them as arguments of type \<open>solver\<close>:
  a call \<^verbatim>\<open>odeint(func, y0, t, method='euler', options={'step_size': h})\<close> maps the
  vector field object, the initial state, the time sequence and the step size to the
  states at the requested times, the content of the tensor \<open>y0\<close> afterwards and the
  vector field object afterwards.
\<close>

type_synonym solver =
  "Dynamics \<Rightarrow> batch \<Rightarrow> real list \<Rightarrow> real \<Rightarrow> error + (batch list \<times> batch \<times> Dynamics)"

text \<open>
  Modelled from the spec: the Euler method of \<^verbatim>\<open>torchdiffeq.odeint\<close>, which the
  repository calls and does not contain. The spec describes the collaborator as a
  fixed-step explicit Euler integrator with the given step size that returns the
  state at each requested time; the definitions from \<open>scale\<close> to \<open>odeint_euler\<close>
  spell this out after the fixed-grid solver of \<^verbatim>\<open>torchdiffeq\<close>. First the
  elementwise arithmetic on batches: the sum of the state and the increment checks
  that the shapes agree (the vector field of a constructed model returns the shape it
  is given, so broadcasting never arises there); the interpolation works on two
  states of the same shape.
\<close>

definition scale :: "real \<Rightarrow> batch \<Rightarrow> batch" where
  "scale c f = map (map (\<lambda>v. c * v)) f"

definition tensor_add :: "batch \<Rightarrow> batch \<Rightarrow> error + batch" where
  "tensor_add a b =
     (if list_all2 (\<lambda>r s. length r = length s) a b
      then Inr (map2 (map2 (+)) a b)
      else Inl RuntimeError)"

definition linear_interp :: "real \<Rightarrow> real \<Rightarrow> batch \<Rightarrow> batch \<Rightarrow> real \<Rightarrow> batch" where
  "linear_interp t0 t1 y0 y1 t =
     (if t = t0 then y0
      else if t = t1 then y1
      else let slope = (t - t0) / (t1 - t0)
           in map2 (map2 (\<lambda>a b. a + slope * (b - a))) y0 y1)"

text \<open>
  Modelled from the spec: the time grid of the missing solver. It starts at the first
  requested time and advances by \<open>step_size\<close> until it reaches the last requested
  time, onto which its last point is moved.
\<close>

definition strictly_increasing :: "real list \<Rightarrow> bool" where
  "strictly_increasing t = list_all (\<lambda>(a, b). a < b) (zip t (tl t))"

definition grid_constructor :: "real \<Rightarrow> real list \<Rightarrow> error + real list" where
  "grid_constructor step_size t =
     (let start_time = hd t;
          end_time = last t;
          niters = nat \<lceil>(end_time - start_time) / step_size + 1\<rceil>;
          t_infer = map (\<lambda>i. real i * step_size + start_time) [0..<niters]
      in if t_infer = [] then Inl IndexError else Inr (butlast t_infer @ [last t]))"

text \<open>
  Modelled from the spec: the inner loop of the missing solver. Every requested time
  not later than the end \<open>t1\<close> of the current step gets its state; the times still to
  come are handed on.
\<close>

fun fill ::
  "real \<Rightarrow> real \<Rightarrow> batch \<Rightarrow> batch \<Rightarrow> real list \<Rightarrow> batch list \<Rightarrow> real list \<times> batch list" where
  "fill t0 t1 y0 y1 [] solution = ([], solution)"
| "fill t0 t1 y0 y1 (s # ts) solution =
     (if s \<le> t1 then fill t0 t1 y0 y1 ts (solution @ [linear_interp t0 t1 y0 y1 s])
      else (s # ts, solution))"

text \<open>
  Modelled from the spec: the outer loop of the missing solver over the steps
  \<open>(t0, t1)\<close> of the time grid. Each step is one evaluation of the vector field at
  \<open>t0\<close>, the explicit Euler update \<open>y1 = y0 + (t1 - t0) * f0\<close>, then the inner loop.
  \<open>seen\<close> is the content of the caller's tensor after the first evaluation (the
  later states are tensors of the solver's own).
\<close>

fun euler_loop ::
  "Dynamics \<Rightarrow> (real \<times> real) list \<Rightarrow> batch \<Rightarrow> batch option \<Rightarrow> real list \<Rightarrow> batch list
     \<Rightarrow> error + (batch list \<times> batch option \<times> Dynamics)" where
  "euler_loop func [] y0 seen ts solution = Inr (solution, seen, func)"
| "euler_loop func ((t0, t1) # steps) y0 seen ts solution =
     (case Dynamics_forward func t0 y0 of
        Inl e \<Rightarrow> Inl e
      | Inr (f0, y0', func') \<Rightarrow>
          (case tensor_add y0' (scale (t1 - t0) f0) of
             Inl e \<Rightarrow> Inl e
           | Inr y1 \<Rightarrow>
               (case fill t0 t1 y0' y1 ts solution of
                  (ts', solution') \<Rightarrow>
                    euler_loop func' steps y1
                      (case seen of None \<Rightarrow> Some y0' | Some c \<Rightarrow> Some c) ts' solution')))"

text \<open>
  Modelled from the spec: \<^verbatim>\<open>torchdiffeq.odeint\<close> with \<^verbatim>\<open>method='euler'\<close> (and the
  forward pass of \<^verbatim>\<open>odeint_adjoint\<close>, which runs the same integration). The state at
  the first requested time is the initial state; the states at the later times come
  from the loop. A time sequence that is empty or not strictly increasing is rejected
  here (integration backwards in time is not modelled).
\<close>

definition odeint_euler :: solver where
  "odeint_euler func y0 t step_size =
     (if t = [] then Inl IndexError
      else if \<not> strictly_increasing t then Inl AssertionError
      else
        and_then (grid_constructor step_size t) (\<lambda>time_grid.
          if hd time_grid \<noteq> hd t \<or> last time_grid \<noteq> last t then Inl AssertionError
          else
            and_then (euler_loop func (zip (butlast time_grid) (tl time_grid)) y0 None (tl t) [y0])
              (\<lambda>(solution, seen, func').
                 Inr (solution, (case seen of None \<Rightarrow> y0 | Some c \<Rightarrow> c), func'))))"

subsection \<open>Semiflow\<close>

record Semiflow =
  adjoint :: bool
  sf_device :: string
  dynamics :: Dynamics
  tol :: real

definition Semiflow_init :: "string \<Rightarrow> Dynamics \<Rightarrow> real \<Rightarrow> bool \<Rightarrow> Semiflow" where
  "Semiflow_init dev dyn tol' adjoint' =
     \<lparr>adjoint = adjoint', sf_device = dev, dynamics = dyn, tol = tol'\<rparr>"

text \<open>
  A result of the flow is a tensor of rank two (one state) or of rank three (a
  sequence of states).
\<close>

datatype tensor = Rank2 batch | Rank3 "batch list"

text \<open>
  \<^verbatim>\<open>x.view(x.size(0), -1)\<close> on a tensor of rank two returns it as it is; with no
  rows the width \<^verbatim>\<open>-1\<close> cannot be inferred and the call raises.
\<close>

definition view_flat :: "batch \<Rightarrow> error + batch" where
  "view_flat x = (if x = [] then Inl RuntimeError else Inr x)"

definition zeros :: "nat \<Rightarrow> nat \<Rightarrow> batch" where
  "zeros n m = replicate n (replicate m 0)"

definition cat1 :: "batch \<Rightarrow> batch \<Rightarrow> batch" where
  "cat1 a b = map2 (@) a b"

text \<open>Lines 98 to 103 of \<^verbatim>\<open>Semiflow.forward\<close>: the state handed to the solver.\<close>

definition x_aug_of :: "Semiflow \<Rightarrow> batch \<Rightarrow> error + batch" where
  "x_aug_of self x =
     (if 0 < augment_dim (dynamics self) then
        and_then (view_flat x) (\<lambda>x.
          let aug = zeros (length x) (augment_dim (dynamics self))
          in Inr (cat1 x aug))
      else Inr x)"

definition Semiflow_forward ::
  "solver \<Rightarrow> solver \<Rightarrow> Semiflow \<Rightarrow> batch \<Rightarrow> real list option
     \<Rightarrow> error + (tensor \<times> batch \<times> Semiflow)" where
  "Semiflow_forward odeint odeint_adjoint self0 x eval_times =
     (let self = self0\<lparr>dynamics := (dynamics self0)\<lparr>nfe := 0\<rparr>\<rparr>;
          integration_time =
            (case eval_times of None \<Rightarrow> [0, real_of_int T] | Some ts \<Rightarrow> ts)
      in and_then (x_aug_of self x) (\<lambda>x_aug.
         and_then ((if adjoint self then odeint_adjoint else odeint)
                      (dynamics self) x_aug integration_time dt) (\<lambda>(out, y0', dyn').
           let self' = self\<lparr>dynamics := dyn'\<rparr>;
               x' = (if 0 < augment_dim (dynamics self) then x else y0')
           in (case eval_times of
                 None \<Rightarrow> and_then (getitem out 1) (\<lambda>s. Inr (Rank2 s, x', self'))
               | Some ts \<Rightarrow> Inr (Rank3 out, x', self')))))"

text \<open>\<^verbatim>\<open>torch.linspace(start, end, steps)\<close>.\<close>

definition linspace :: "real \<Rightarrow> real \<Rightarrow> nat \<Rightarrow> real list" where
  "linspace a b steps =
     (if steps = 1 then [a]
      else map (\<lambda>i. a + real i * ((b - a) / real (steps - 1))) [0..<steps])"

definition Semiflow_trajectory ::
  "solver \<Rightarrow> solver \<Rightarrow> Semiflow \<Rightarrow> batch \<Rightarrow> nat \<Rightarrow> error + (tensor \<times> batch \<times> Semiflow)" where
  "Semiflow_trajectory odeint odeint_adjoint self x timesteps =
     (let integration_time = linspace 0 (real_of_int T) timesteps
      in Semiflow_forward odeint odeint_adjoint self x (Some integration_time))"

subsection \<open>NeuralODE\<close>

record NeuralODE =
  node_device :: string
  node_data_dim :: nat
  node_hidden_dim :: nat
  node_augment_dim :: nat
  output_dim :: nat
  node_tol :: real
  flow :: Semiflow
  linear_layer :: linear
  node_non_linearity :: activation
  traj :: "tensor option"
  proj_traj :: "tensor option"

definition NeuralODE_init ::
  "string \<Rightarrow> nat \<Rightarrow> nat \<Rightarrow> nat \<Rightarrow> nat \<Rightarrow> string \<Rightarrow> real \<Rightarrow> bool \<Rightarrow> initializer
     \<Rightarrow> (nat \<Rightarrow> nat \<Rightarrow> real) \<times> (nat \<Rightarrow> real) \<Rightarrow> error + NeuralODE" where
  "NeuralODE_init dev data_dim' hidden_dim' output_dim' augment_dim' non_linearity' tol'
       adjoint' init readout =
     and_then (Dynamics_init dev data_dim' hidden_dim' augment_dim' non_linearity' init) (\<lambda>dyn.
       let flow' = Semiflow_init dev dyn tol' adjoint'
       in Inr \<lparr>node_device = dev, node_data_dim = data_dim', node_hidden_dim = hidden_dim',
               node_augment_dim = augment_dim', output_dim = output_dim', node_tol = tol',
               flow = flow',
               linear_layer = Linear (input_dim (dynamics flow')) output_dim' (fst readout) (snd readout),
               node_non_linearity = Tanh, traj = None, proj_traj = None\<rparr>)"

definition affine :: "real list list \<Rightarrow> real list \<Rightarrow> batch \<Rightarrow> error + batch" where
  "affine w b x = and_then (matmul_t x w) (\<lambda>m. add_bias m b)"

fun each :: "('a \<Rightarrow> error + 'b) \<Rightarrow> 'a list \<Rightarrow> error + 'b list" where
  "each f [] = Inr []"
| "each f (x # xs) =
     (case f x of
        Inl e \<Rightarrow> Inl e
      | Inr y \<Rightarrow> (case each f xs of Inl e \<Rightarrow> Inl e | Inr ys \<Rightarrow> Inr (y # ys)))"

text \<open>
  An affine map applied to the last axis of a tensor: to the state of rank two, and to
  every state of a sequence with the same weight and bias.
\<close>

fun affine_tensor :: "real list list \<Rightarrow> real list \<Rightarrow> tensor \<Rightarrow> error + tensor" where
  "affine_tensor w b (Rank2 x) = and_then (affine w b x) (\<lambda>y. Inr (Rank2 y))"
| "affine_tensor w b (Rank3 xs) = and_then (each (affine w b) xs) (\<lambda>ys. Inr (Rank3 ys))"

definition Linear_forward :: "linear \<Rightarrow> tensor \<Rightarrow> error + tensor" where
  "Linear_forward layer x = affine_tensor (weight layer) (bias layer) x"

fun tensor_act :: "activation \<Rightarrow> tensor \<Rightarrow> tensor" where
  "tensor_act a (Rank2 x) = Rank2 (fst (apply_act a x))"
| "tensor_act a (Rank3 xs) = Rank3 (map (\<lambda>x. fst (apply_act a x)) xs)"

text \<open>
  The file the fixed projector is read from: the unpickled object is a sequence of
  parameters, each a matrix or a vector.
\<close>

datatype param = Matrix "real list list" | Vector "real list"

type_synonym filesystem = "string \<rightharpoonup> param list"

definition pickle_load :: "filesystem \<Rightarrow> string \<Rightarrow> error + param list" where
  "pickle_load fs name = (case fs name of None \<Rightarrow> Inl FileNotFoundError | Some obj \<Rightarrow> Inr obj)"

fun project :: "param \<Rightarrow> param \<Rightarrow> tensor \<Rightarrow> error + tensor" where
  "project (Matrix w) (Vector b) x = affine_tensor w b x"
| "project pw pb x = Inl RuntimeError"

text \<open>
  \<^verbatim>\<open>NeuralODE.forward(x, return_features)\<close> returns the pair of tensors, the content
  of \<open>x\<close> after the call and the object with \<open>traj\<close>, \<open>proj_traj\<close> and the counter
  of its flow updated.
\<close>

definition NeuralODE_forward ::
  "solver \<Rightarrow> solver \<Rightarrow> filesystem \<Rightarrow> NeuralODE \<Rightarrow> batch \<Rightarrow> bool
     \<Rightarrow> error + ((tensor \<times> tensor) \<times> batch \<times> NeuralODE)" where
  "NeuralODE_forward odeint odeint_adjoint fs self0 x0 return_features =
     (let cross_entropy = True;
          fixed_projector = False
      in and_then (Semiflow_forward odeint odeint_adjoint (flow self0) x0 None)
           (\<lambda>(features, x1, flow1).
         let self1 = self0\<lparr>flow := flow1\<rparr>
         in and_then
              (if fixed_projector then
                 and_then (pickle_load fs ''text.txt'') (\<lambda>projector.
                 and_then (getitem projector (- 2)) (\<lambda>pw.
                 and_then (getitem projector (- 1)) (\<lambda>pb.
                 and_then (project pw pb features) (\<lambda>pred.
                 and_then (Semiflow_trajectory odeint odeint_adjoint (flow self1) x1 (nat time_steps))
                   (\<lambda>(tr, x2, flow2).
                   let self2 = self1\<lparr>flow := flow2, traj := Some tr\<rparr>
                   in and_then (project pw pb tr) (\<lambda>pt.
                        Inr (pred, x2, self2\<lparr>proj_traj := Some pt\<rparr>)))))))
               else
                 and_then (Semiflow_trajectory odeint odeint_adjoint (flow self1) x1 (nat time_steps))
                   (\<lambda>(tr, x2, flow2).
                   let self2 = self1\<lparr>flow := flow2, traj := Some tr\<rparr>
                   in and_then (Linear_forward (linear_layer self2) features) (\<lambda>pred.
                      and_then (Linear_forward (linear_layer self2) tr) (\<lambda>pt.
                        let self3 = self2\<lparr>proj_traj := Some pt\<rparr>
                        in if \<not> cross_entropy then
                             Inr (tensor_act (node_non_linearity self3) pred, x2,
                                  self3\<lparr>proj_traj := Some (tensor_act (node_non_linearity self3) pt)\<rparr>)
                           else Inr (pred, x2, self3)))))
              (\<lambda>(pred, x2, self3).
                 if return_features then Inr ((features, pred), x2, self3)
                 else and_then (attr (proj_traj self3)) (\<lambda>pt. Inr ((pred, pt), x2, self3)))))"

subsection \<open>The time grid of the default span\<close>

text \<open>
  The grid the Euler solver builds when the requested times start at 0 and end at
  \<open>T\<close> and the step size is \<open>dt\<close> (lemma \<open>grid_constructor_default\<close>), and its steps.
\<close>

definition default_grid :: "real list" where
  "default_grid = map (\<lambda>i. real i * dt) [0..<nat time_steps] @ [real_of_int T]"

definition default_steps :: "(real \<times> real) list" where
  "default_steps = zip (butlast default_grid) (tl default_grid)"

subsection \<open>A small model used for concrete instances\<close>

text \<open>
  A flat model of width one as the constructor builds it for \<^verbatim>\<open>'tanh'\<close>, with every
  weight of the bank set to 0 and every bias to 3 (so the vector field is constantly
  3), a counter left at 7 by an earlier call, and the readout \<open>v \<mapsto> 2 v + 1\<close>.
\<close>

definition dyn_ex :: Dynamics where
  "dyn_ex =
     \<lparr>device = ''cpu'', augment_dim = 0, data_dim = 1, input_dim = 1, hidden_dim = 1,
      nfe = 7, non_linearity = Tanh, species = - 1,
      fc1_time = None, fc3_time = None,
      fc2_time = Some (replicate 15 \<lparr>weight = [[0]], bias = [3]\<rparr>)\<rparr>"

definition flow_ex :: Semiflow where
  "flow_ex = \<lparr>adjoint = False, sf_device = ''cpu'', dynamics = dyn_ex, tol = 1 / 1000\<rparr>"



definition node_ex :: NeuralODE where
  "node_ex =
     \<lparr>node_device = ''cpu'', node_data_dim = 1, node_hidden_dim = 1, node_augment_dim = 0,
      output_dim = 1, node_tol = 1 / 1000, flow = flow_ex,
      linear_layer = \<lparr>weight = [[2]], bias = [1]\<rparr>,
      node_non_linearity = Tanh, traj = None, proj_traj = None\<rparr>"

section \<open>Properties\<close>

subsection \<open>Evaluation and sequencing\<close>

lemmas eval_defs =
  Semiflow_forward_def Semiflow_trajectory_def linspace_def odeint_euler_def
  grid_constructor_def x_aug_of_def view_flat_def zeros_def cat1_def
  strictly_increasing_def T_def time_steps_def dt_def Let_def and_then_def
  Dynamics_forward_def step_index_def py_int_def attr_def getitem_def
  apply_act_def matmul_t_def add_bias_def dot_def tensor_add_def scale_def
  linear_interp_def NeuralODE_forward_def Linear_forward_def affine_def
  dyn_ex_def flow_ex_def node_ex_def

lemma and_then_Inr_iff:
  "and_then r f = Inr v \<longleftrightarrow> (\<exists>u. r = Inr u \<and> f u = Inr v)"
  by (cases r) (simp_all add: and_then_def)

lemma and_then_simps [simp]:
  "and_then (Inl e) f = Inl e"
  "and_then (Inr v) f = f v"
  by (simp_all add: and_then_def)

subsection \<open>The step index\<close>







subsection \<open>Construction\<close>

lemma lookup_activations:
  "lookup activations nl =
     (if nl = ''leakyrelu'' then Inr (LeakyReLU (25 / 100) True)
      else if nl = ''sigmoid'' then Inr Sigmoid
      else if nl = ''relu'' then Inr (ReLU True)
      else if nl = ''tanh'' then Inr Tanh
      else Inl KeyError)"
  by (simp add: lookup_def activations_def)

lemma lookup_inside: "lookup species_tbl ''inside'' = Inr (- 1)"
  by (simp add: lookup_def species_tbl_def)

lemma Dynamics_init_eq:
  "Dynamics_init dev dd hd' ad nl init =
     and_then (lookup activations nl) (\<lambda>act.
       Inr \<lparr>device = dev, augment_dim = ad, data_dim = dd, input_dim = dd + ad,
            hidden_dim = hd', nfe = 0, non_linearity = act, species = - 1,
            fc1_time = None, fc3_time = None,
            fc2_time = Some (blocks_of init 0 hd' hd')\<rparr>)"
  by (simp add: Dynamics_init_def lookup_inside Let_def)

text \<open>
  C9: constructing \<^verbatim>\<open>Dynamics\<close> with a nonlinearity name outside
  \<open>{tanh, relu, sigmoid, leakyrelu}\<close> raises (KeyError) in the constructor, so no
  object exists that could be evaluated, and so does the constructor of
  \<^verbatim>\<open>NeuralODE\<close>, which builds it; with a name in the set both constructions succeed.
\<close>

theorem Dynamics_init_nonlinearity:
  "(nl \<in> {''tanh'', ''relu'', ''sigmoid'', ''leakyrelu''} \<longrightarrow>
      (\<exists>d. Dynamics_init dev dd hd' ad nl init = Inr d) \<and>
      (\<exists>m. NeuralODE_init dev dd hd' od ad nl eps adj init ro = Inr m)) \<and>
   (nl \<notin> {''tanh'', ''relu'', ''sigmoid'', ''leakyrelu''} \<longrightarrow>
      Dynamics_init dev dd hd' ad nl init = Inl KeyError \<and>
      NeuralODE_init dev dd hd' od ad nl eps adj init ro = Inl KeyError)"
  by (auto simp add: NeuralODE_init_def Dynamics_init_eq lookup_activations Let_def)

theorem Dynamics_init_nonlinearity_witness:
  "(\<exists>d. Dynamics_init ''cpu'' 2 2 0 ''sigmoid'' (\<lambda>n. (\<lambda>i j. 0, \<lambda>i. 0)) = Inr d) \<and>
   Dynamics_init ''cpu'' 2 2 0 ''softplus'' (\<lambda>n. (\<lambda>i j. 0, \<lambda>i. 0)) = Inl KeyError"
  using Dynamics_init_nonlinearity [of "''sigmoid''" "''cpu''" 2 2 0 "\<lambda>n. (\<lambda>i j. 0, \<lambda>i. 0)"]
    Dynamics_init_nonlinearity [of "''softplus''" "''cpu''" 2 2 0 "\<lambda>n. (\<lambda>i j. 0, \<lambda>i. 0)"]
  by simp

subsection \<open>The state argument of the vector field\<close>



text \<open>
  C8: the vector field is to leave its state argument unchanged for every supported
  nonlinearity. On the model the constructor builds for \<^verbatim>\<open>'relu'\<close> (width two, every
  weight 1, every bias 0) the call \<^verbatim>\<open>forward(0, [[-1, 2]])\<close> returns \<open>[[2, 2]]\<close> and
  leaves \<open>[[0, 2]]\<close> in the tensor \<open>x\<close>: the in-place rectifier has overwritten
  the state.
\<close>

theorem relu_overwrites_state:
  "and_then (Dynamics_init ''cpu'' 2 2 0 ''relu'' (\<lambda>n. (\<lambda>i j. 1, \<lambda>i. 0)))
     (\<lambda>d. and_then (Dynamics_forward d 0 [[- 1, 2]]) (\<lambda>(out, x', d'). Inr (out, x')))
   = Inr ([[2, 2]], [[0, 2]])"
  by (simp add: Dynamics_init_eq lookup_activations Dynamics_forward_def Let_def
      step_index_def py_int_def attr_def blocks_of_def time_steps_def getitem_def Linear_def
      apply_act_def matmul_t_def add_bias_def dot_def upt_rec)

subsection \<open>Terminal state and trajectory of the flow\<close>

lemma second_of_solution:
  fixes R :: "error + (batch list \<times> batch \<times> Dynamics)"
  shows "and_then R (\<lambda>(out, y0', dyn'). and_then (getitem out 1) (\<lambda>s. Inr (Rank2 s, g y0', h dyn')))
           = Inr (r, x', self') \<longleftrightarrow>
         (\<exists>out s. and_then R (\<lambda>(out, y0', dyn'). Inr (Rank3 out, g y0', h dyn'))
                     = Inr (Rank3 out, x', self') \<and>
                  getitem out 1 = Inr s \<and> r = Rank2 s)"
  by (cases R) (auto simp add: and_then_Inr_iff)

lemma error_of_solution:
  fixes R :: "error + (batch list \<times> batch \<times> Dynamics)"
  shows "and_then R (\<lambda>(out, y0', dyn'). Inr (Rank3 out, g y0', h dyn')) = Inl e \<Longrightarrow>
         and_then R (\<lambda>(out, y0', dyn'). and_then (getitem out 1) (\<lambda>s. Inr (Rank2 s, g y0', h dyn')))
           = Inl e"
  by (cases R) (auto simp add: and_then_Inr_iff)

text \<open>
  C2: for every input \<open>x\<close>, every parameter configuration and every integration
  collaborator, \<^verbatim>\<open>Semiflow.forward(x, eval_times=None)\<close> returns a state exactly when
  \<^verbatim>\<open>Semiflow.forward(x, eval_times=[0, T])\<close> returns a sequence with a second
  element, and the state is that second element (with the same effect on \<open>x\<close> and
  on the object); an exception of the second call is the exception of the first.
\<close>

theorem terminal_state_equivalence:
  "(Semiflow_forward od oda self x None = Inr (r, x', self') \<longleftrightarrow>
     (\<exists>out s. Semiflow_forward od oda self x (Some [0, real_of_int T]) = Inr (Rank3 out, x', self')
        \<and> getitem out 1 = Inr s \<and> r = Rank2 s)) \<and>
   (\<forall>e. Semiflow_forward od oda self x (Some [0, real_of_int T]) = Inl e \<longrightarrow>
        Semiflow_forward od oda self x None = Inl e)"
proof (cases "x_aug_of (self\<lparr>dynamics := (dynamics self)\<lparr>nfe := 0\<rparr>\<rparr>) x")
  case (Inl e)
  then show ?thesis
    by (simp add: Semiflow_forward_def Let_def)
next
  case (Inr u)
  then show ?thesis
    by (simp add: Semiflow_forward_def Let_def second_of_solution error_of_solution)
qed

theorem terminal_state_equivalence_witness:
  "\<exists>out s. Semiflow_forward odeint_euler odeint_euler flow_ex [[0]] (Some [0, real_of_int T])
              = Inr (Rank3 out, [[0]], flow_ex\<lparr>dynamics := dyn_ex\<lparr>nfe := 15\<rparr>\<rparr>) \<and>
            getitem out 1 = Inr s \<and> Rank2 [[30]] = Rank2 s"
proof -
  have "Semiflow_forward odeint_euler odeint_euler flow_ex [[0]] None
          = Inr (Rank2 [[30]], [[0]], flow_ex\<lparr>dynamics := dyn_ex\<lparr>nfe := 15\<rparr>\<rparr>)"
    by (simp add: eval_defs upt_rec)
  with terminal_state_equivalence [of odeint_euler odeint_euler flow_ex "[[0]]"]
  show ?thesis by blast
qed

subsection \<open>The readout\<close>

lemma NeuralODE_forward_eq:
  "NeuralODE_forward od oda fs self x rf =
     and_then (Semiflow_forward od oda (flow self) x None) (\<lambda>(features, x1, flow1).
     and_then (Semiflow_trajectory od oda flow1 x1 (nat time_steps)) (\<lambda>(tr, x2, flow2).
     and_then (Linear_forward (linear_layer self) features) (\<lambda>pred.
     and_then (Linear_forward (linear_layer self) tr) (\<lambda>pt.
       Inr (if rf then (features, pred) else (pred, pt), x2,
            self\<lparr>flow := flow2, traj := Some tr, proj_traj := Some pt\<rparr>)))))"
  unfolding NeuralODE_forward_def Let_def
  by (auto simp add: and_then_def attr_def split: sum.splits prod.splits)

lemma each_Inr:
  "each f xs = Inr ys \<Longrightarrow> length ys = length xs \<and> (\<forall>i<length xs. f (xs ! i) = Inr (ys ! i))"
proof (induction xs arbitrary: ys)
  case Nil
  then show ?case by simp
next
  case (Cons a xs)
  then obtain y ys' where fa: "f a = Inr y" and r: "each f xs = Inr ys'" and ys: "ys = y # ys'"
    by (auto split: sum.splits)
  from Cons.IH [OF r] have "length ys' = length xs" and "\<forall>i<length xs. f (xs ! i) = Inr (ys' ! i)"
    by simp_all
  with fa ys show ?case
    by (auto simp add: nth_Cons split: nat.splits)
qed

text \<open>
  C4: when \<^verbatim>\<open>NeuralODE.forward(x, return_features=True)\<close> returns \<open>(features, pred)\<close>,
  the readout \<open>linear_layer\<close> applied to \<open>features\<close> gives \<open>pred\<close>, and
  \<^verbatim>\<open>forward(x, return_features=False)\<close> on the same object and input returns that
  \<open>pred\<close> first; the projected trajectory it returns second has one state per state
  of the stored trajectory, each the same \<open>linear_layer\<close> applied to that state.
\<close>

theorem readout_consistency:
  assumes "NeuralODE_forward od oda fs self x True = Inr ((features, pred), x', self')"
  shows "Linear_forward (linear_layer self) features = Inr pred \<and>
         (\<exists>states projected.
            NeuralODE_forward od oda fs self x False = Inr ((pred, Rank3 projected), x', self') \<and>
            traj self' = Some (Rank3 states) \<and>
            proj_traj self' = Some (Rank3 projected) \<and>
            linear_layer self' = linear_layer self \<and>
            length projected = length states \<and>
            (\<forall>i<length states.
               Linear_forward (linear_layer self) (Rank2 (states ! i)) = Inr (Rank2 (projected ! i))))"
proof -
  from assms obtain f1 x1 flow1 tr x2 flow2 pt where
    a: "Semiflow_forward od oda (flow self) x None = Inr (f1, x1, flow1)" and
    b: "Semiflow_trajectory od oda flow1 x1 (nat time_steps) = Inr (tr, x2, flow2)" and
    c: "Linear_forward (linear_layer self) f1 = Inr pred" and
    d: "Linear_forward (linear_layer self) tr = Inr pt" and
    e: "features = f1" "x' = x2"
       "self' = self\<lparr>flow := flow2, traj := Some tr, proj_traj := Some pt\<rparr>"
    unfolding NeuralODE_forward_eq by (auto simp add: and_then_Inr_iff split: prod.splits)
  from b obtain states where tr: "tr = Rank3 states"
    unfolding Semiflow_trajectory_def Semiflow_forward_def Let_def
    by (auto simp add: and_then_Inr_iff split: prod.splits)
  from d tr obtain projected where
    pt: "pt = Rank3 projected" and
    ea: "each (affine (weight (linear_layer self)) (bias (linear_layer self))) states = Inr projected"
    by (auto simp add: Linear_forward_def and_then_Inr_iff)
  have f: "NeuralODE_forward od oda fs self x False = Inr ((pred, Rank3 projected), x', self')"
    unfolding NeuralODE_forward_eq using a b c d e pt by simp
  from each_Inr [OF ea] have
    "length projected = length states"
    "\<forall>i<length states.
       Linear_forward (linear_layer self) (Rank2 (states ! i)) = Inr (Rank2 (projected ! i))"
    by (simp_all add: Linear_forward_def)
  with c e tr pt f show ?thesis by simp
qed

theorem readout_consistency_witness:
  "Linear_forward (linear_layer node_ex) (Rank2 [[30]]) = Inr (Rank2 [[61]]) \<and>
   (\<exists>projected x' self'.
      NeuralODE_forward odeint_euler odeint_euler Map.empty node_ex [[0]] False
        = Inr ((Rank2 [[61]], Rank3 projected), x', self') \<and>
      length projected = 15)"
proof -
  have "\<exists>m'. NeuralODE_forward odeint_euler odeint_euler Map.empty node_ex [[0]] True
                = Inr ((Rank2 [[30]], Rank2 [[61]]), [[0]], m') \<and>
              (\<exists>states. traj m' = Some (Rank3 states) \<and> length states = 15)"
    by (simp add: eval_defs upt_rec)
  then obtain m' states where
    h: "NeuralODE_forward odeint_euler odeint_euler Map.empty node_ex [[0]] True
          = Inr ((Rank2 [[30]], Rank2 [[61]]), [[0]], m')" and
    t: "traj m' = Some (Rank3 states)" "length states = 15"
    by blast
  from readout_consistency [OF h] t show ?thesis
    by auto
qed

text \<open>
  C10: for every model, input, integration collaborator and content of the file
  system, \<^verbatim>\<open>NeuralODE.forward\<close> is the learnable-readout computation: the terminal
  state of the flow, the trajectory at \<open>time_steps\<close> times, and \<open>linear_layer\<close>
  applied to both without a final nonlinearity. The file system does not occur in
  it: the branch that loads a serialized projector and the final tanh are never
  taken.
\<close>

theorem forward_takes_learnable_readout:
  "NeuralODE_forward od oda fs self x rf =
     and_then (Semiflow_forward od oda (flow self) x None) (\<lambda>(features, x1, flow1).
     and_then (Semiflow_trajectory od oda flow1 x1 (nat time_steps)) (\<lambda>(tr, x2, flow2).
     and_then (Linear_forward (linear_layer self) features) (\<lambda>pred.
     and_then (Linear_forward (linear_layer self) tr) (\<lambda>pt.
       Inr (if rf then (features, pred) else (pred, pt), x2,
            self\<lparr>flow := flow2, traj := Some tr, proj_traj := Some pt\<rparr>)))))"
  by (rule NeuralODE_forward_eq)

theorem forward_takes_learnable_readout_witness:
  "\<exists>pt x' self'.
     NeuralODE_forward odeint_euler odeint_euler
         [''text.txt'' \<mapsto> [Matrix [[5]], Vector [7]]] node_ex [[0]] False
       = Inr ((Rank2 [[61]], pt), x', self')"
proof -
  have "\<exists>pt x' self'.
     and_then (Semiflow_forward odeint_euler odeint_euler (flow node_ex) [[0]] None)
       (\<lambda>(features, x1, flow1).
     and_then (Semiflow_trajectory odeint_euler odeint_euler flow1 x1 (nat time_steps))
       (\<lambda>(tr, x2, flow2).
     and_then (Linear_forward (linear_layer node_ex) features) (\<lambda>pred.
     and_then (Linear_forward (linear_layer node_ex) tr) (\<lambda>pt.
       Inr (if False then (features, pred) else (pred, pt), x2,
            node_ex\<lparr>flow := flow2, traj := Some tr, proj_traj := Some pt\<rparr>)))))
     = Inr ((Rank2 [[61]], pt), x', self')"
    by (simp add: eval_defs upt_rec)
  then show ?thesis
    by (simp only: forward_takes_learnable_readout
        [of odeint_euler odeint_euler "[''text.txt'' \<mapsto> [Matrix [[5]], Vector [7]]]"
          node_ex "[[0]]" False])
qed


subsection \<open>The Euler solver\<close>

lemma fill_eq:
  "fill t0 t1 y0 y1 ts sol =
     (dropWhile (\<lambda>s. s \<le> t1) ts,
      sol @ map (linear_interp t0 t1 y0 y1) (takeWhile (\<lambda>s. s \<le> t1) ts))"
  by (induction ts arbitrary: sol) simp_all

lemma euler_loop_Cons_Inr:
  "euler_loop d ((t0, t1) # ps) y seen ts sol = Inr res \<longleftrightarrow>
     (\<exists>f0 y0' d1 y1.
        Dynamics_forward d t0 y = Inr (f0, y0', d1) \<and>
        tensor_add y0' (scale (t1 - t0) f0) = Inr y1 \<and>
        euler_loop d1 ps y1 (case seen of None \<Rightarrow> Some y0' | Some c \<Rightarrow> Some c)
          (dropWhile (\<lambda>s. s \<le> t1) ts)
          (sol @ map (linear_interp t0 t1 y0' y1) (takeWhile (\<lambda>s. s \<le> t1) ts)) = Inr res)"
  by (auto simp add: fill_eq split: sum.splits prod.splits)


text \<open>
  Whether the loop succeeds, what it leaves in the caller's tensor and in the vector
  field object do not depend on the requested times.
\<close>

lemma euler_loop_other_times:
  "euler_loop d ps y seen ts sol = Inr (solA, seenA, dA) \<Longrightarrow>
     \<exists>solB. euler_loop d ps y seen ts' sol' = Inr (solB, seenA, dA)"
proof (induction ps arbitrary: d y seen ts sol ts' sol')
  case Nil
  then show ?case by simp
next
  case (Cons p ps)
  obtain t0 t1 where p: "p = (t0, t1)" by (cases p)
  from Cons.prems obtain f0 y0' d1 y1 where
    fw: "Dynamics_forward d t0 y = Inr (f0, y0', d1)" and
    ad: "tensor_add y0' (scale (t1 - t0) f0) = Inr y1" and
    rest: "euler_loop d1 ps y1 (case seen of None \<Rightarrow> Some y0' | Some c \<Rightarrow> Some c)
             (dropWhile (\<lambda>s. s \<le> t1) ts)
             (sol @ map (linear_interp t0 t1 y0' y1) (takeWhile (\<lambda>s. s \<le> t1) ts))
           = Inr (solA, seenA, dA)"
    unfolding p euler_loop_Cons_Inr by blast
  from Cons.IH [OF rest] obtain solB where
    "euler_loop d1 ps y1 (case seen of None \<Rightarrow> Some y0' | Some c \<Rightarrow> Some c)
       (dropWhile (\<lambda>s. s \<le> t1) ts')
       (sol' @ map (linear_interp t0 t1 y0' y1) (takeWhile (\<lambda>s. s \<le> t1) ts'))
     = Inr (solB, seenA, dA)"
    by blast
  with fw ad show ?case
    unfolding p euler_loop_Cons_Inr by blast
qed

lemma dropWhile_keeps_last:
  assumes "ts \<noteq> []" and "\<not> P (last ts)"
  shows "dropWhile P ts \<noteq> [] \<and> last (dropWhile P ts) = last ts"
  using assms by (induction ts) auto

text \<open>
  On a grid that reaches its end \<open>te\<close> only with its last step, and for requested
  times that end with \<open>te\<close>: every requested time gets a state, the states already
  stored stay, and the last state is the one a request for \<open>te\<close> alone would get.
\<close>

lemma euler_loop_last:
  assumes "ps \<noteq> []" and "snd (last ps) = te" and "\<forall>p\<in>set (butlast ps). snd p < te"
    and "fst (last ps) \<noteq> te"
    and "ts \<noteq> []" and "last ts = te" and "\<forall>s\<in>set ts. s \<le> te"
    and "euler_loop d ps y seen ts sol = Inr (solB, seenB, dB)"
  shows "length solB = length sol + length ts \<and> take (length sol) solB = sol \<and>
         euler_loop d ps y seen [te] [] = Inr ([last solB], seenB, dB)"
  using assms
proof (induction ps arbitrary: d y seen ts sol)
  case Nil
  then show ?case by simp
next
  case (Cons p ps)
  obtain t0 t1 where p: "p = (t0, t1)" by (cases p)
  from Cons.prems(8) obtain f0 y0' d1 y1 where
    fw: "Dynamics_forward d t0 y = Inr (f0, y0', d1)" and
    ad: "tensor_add y0' (scale (t1 - t0) f0) = Inr y1" and
    rest: "euler_loop d1 ps y1 (case seen of None \<Rightarrow> Some y0' | Some c \<Rightarrow> Some c)
             (dropWhile (\<lambda>s. s \<le> t1) ts)
             (sol @ map (linear_interp t0 t1 y0' y1) (takeWhile (\<lambda>s. s \<le> t1) ts))
           = Inr (solB, seenB, dB)"
    unfolding p euler_loop_Cons_Inr by blast
  show ?case
  proof (cases "ps = []")
    case True
    with Cons.prems(2,4) p have t1: "t1 = te" and t0: "t0 \<noteq> te" by simp_all
    from Cons.prems(7) t1 have all:
      "takeWhile (\<lambda>s. s \<le> t1) ts = ts" "dropWhile (\<lambda>s. s \<le> t1) ts = []"
      by simp_all
    from rest True all have solB: "solB = sol @ map (linear_interp t0 t1 y0' y1) ts"
      and sb: "seenB = (case seen of None \<Rightarrow> Some y0' | Some c \<Rightarrow> Some c)" and db: "dB = d1"
      by simp_all
    from Cons.prems(5,6) t1 t0 have lastB: "last solB = y1"
      by (simp add: solB last_map linear_interp_def)
    have one: "euler_loop d (p # ps) y seen [te] [] = Inr ([y1], seenB, dB)"
      unfolding p euler_loop_Cons_Inr using fw ad True t1 t0 sb db
      by (simp add: linear_interp_def)
    from solB lastB one show ?thesis by simp
  next
    case False
    with Cons.prems(2,3) p have t1: "t1 < te" and lst: "snd (last ps) = te"
      and bl: "\<forall>p\<in>set (butlast ps). snd p < te"
      by auto
    from Cons.prems(4) False have fl: "fst (last ps) \<noteq> te" by simp
    let ?ts = "dropWhile (\<lambda>s. s \<le> t1) ts"
    let ?sol = "sol @ map (linear_interp t0 t1 y0' y1) (takeWhile (\<lambda>s. s \<le> t1) ts)"
    from Cons.prems(5,6) t1 have ne: "?ts \<noteq> []" and la: "last ?ts = te"
      using dropWhile_keeps_last [of ts "\<lambda>s. s \<le> t1"] by auto
    from Cons.prems(7) have le: "\<forall>s\<in>set ?ts. s \<le> te"
      by (meson in_mono set_dropWhileD)
    from Cons.IH [OF False lst bl fl ne la le rest] have
      len: "length solB = length ?sol + length ?ts" and
      tk: "take (length ?sol) solB = ?sol" and
      one: "euler_loop d1 ps y1 (case seen of None \<Rightarrow> Some y0' | Some c \<Rightarrow> Some c) [te] []
             = Inr ([last solB], seenB, dB)"
      by simp_all
    have cnt: "length (takeWhile (\<lambda>s. s \<le> t1) ts) + length ?ts = length ts"
      by (metis length_append takeWhile_dropWhile_id)
    from len cnt have l: "length solB = length sol + length ts" by simp
    have "take (length sol) (take (length ?sol) solB) = take (length sol) ?sol"
      using tk by simp
    then have t: "take (length sol) solB = sol"
      by (simp add: min_def)
    have "euler_loop d (p # ps) y seen [te] [] = Inr ([last solB], seenB, dB)"
      unfolding p euler_loop_Cons_Inr using fw ad one t1 by simp
    with l t show ?thesis by simp
  qed
qed

lemma default_grid_value:
  "default_grid =
     [0, 2 / 3, 4 / 3, 2, 8 / 3, 10 / 3, 4, 14 / 3, 16 / 3, 6, 20 / 3, 22 / 3, 8, 26 / 3,
      28 / 3, 10]"
  by (simp add: default_grid_def T_def dt_def time_steps_def upt_rec)

lemma grid_constructor_default:
  assumes "hd t = 0" and "last t = real_of_int T"
  shows "grid_constructor dt t = Inr default_grid"
  using assms
  by (simp add: grid_constructor_def default_grid_value T_def dt_def time_steps_def Let_def upt_rec)

lemma default_steps_facts:
  "default_steps \<noteq> []"
  "snd (last default_steps) = real_of_int T"
  "\<forall>p\<in>set (butlast default_steps). snd p < real_of_int T"
  "fst (last default_steps) \<noteq> real_of_int T"
  "length default_steps = 15"
  "\<forall>p\<in>set default_steps. 0 \<le> fst p \<and> fst p < real_of_int T"
  by (simp_all add: default_steps_def default_grid_value T_def)

lemma strictly_increasing_nth:
  "strictly_increasing t \<longleftrightarrow> (\<forall>i. Suc i < length t \<longrightarrow> t ! i < t ! Suc i)"
  by (cases t) (auto simp add: strictly_increasing_def list_all_length nth_tl)

lemma linspace_facts:
  assumes "2 \<le> n" and "0 < b"
  shows "length (linspace 0 b n) = n"
    and "hd (linspace 0 b n) = 0"
    and "last (linspace 0 b n) = b"
    and "strictly_increasing (linspace 0 b n)"
    and "\<forall>i. Suc i < n \<longrightarrow> linspace 0 b n ! Suc i - linspace 0 b n ! i = b / real (n - 1)"
    and "\<forall>s\<in>set (linspace 0 b n). s \<le> b"
proof -
  define c where "c = b / real (n - 1)"
  from assms(1) have n1: "n \<noteq> 1" and n0: "0 < n" and pos: "0 < real (n - 1)" by simp_all
  have eq: "linspace 0 b n = map (\<lambda>i. real i * c) [0..<n]"
    using n1 by (simp add: linspace_def c_def)
  have step: "0 < c" using assms(2) pos by (simp add: c_def)
  have top: "real (n - 1) * c = b" using pos by (simp add: c_def)
  show "length (linspace 0 b n) = n" by (simp add: eq)
  show "hd (linspace 0 b n) = 0"
    using n0 by (simp add: eq hd_map upt_conv_Cons)
  show "last (linspace 0 b n) = b"
    using n0 top by (simp add: eq last_map)
  have inc: "real i * c < real (Suc i) * c" for i
    using step by (simp add: distrib_right)
  show "strictly_increasing (linspace 0 b n)"
    unfolding strictly_increasing_nth using inc by (simp add: eq del: of_nat_Suc)
  have "real (Suc i) * c - real i * c = c" for i
    by (simp add: distrib_right)
  then have "\<forall>i. Suc i < n \<longrightarrow> linspace 0 b n ! Suc i - linspace 0 b n ! i = c"
    by (simp add: eq del: of_nat_Suc)
  then show "\<forall>i. Suc i < n \<longrightarrow> linspace 0 b n ! Suc i - linspace 0 b n ! i = b / real (n - 1)"
    unfolding c_def .
  show "\<forall>s\<in>set (linspace 0 b n). s \<le> b"
  proof
    fix s assume "s \<in> set (linspace 0 b n)"
    then obtain i where i: "i < n" and s: "s = real i * c"
      by (auto simp add: eq)
    from i have "real i \<le> real (n - 1)" by simp
    then have "real i * c \<le> real (n - 1) * c"
      using step by (simp add: mult_right_mono)
    with top s show "s \<le> b" by simp
  qed
qed


lemma odeint_euler_default:
  assumes "t \<noteq> []" and "strictly_increasing t" and "hd t = 0" and "last t = real_of_int T"
  shows "odeint_euler d y t dt =
           and_then (euler_loop d default_steps y None (tl t) [y]) (\<lambda>(sol, seen, d').
             Inr (sol, (case seen of None \<Rightarrow> y | Some c \<Rightarrow> c), d'))"
proof -
  have "hd default_grid = 0" "last default_grid = real_of_int T"
    by (simp_all add: default_grid_value T_def)
  with assms show ?thesis
    by (simp add: odeint_euler_def grid_constructor_default default_steps_def)
qed

lemma default_span:
  "[0, real_of_int T] \<noteq> []" "strictly_increasing [0, real_of_int T]"
  "hd [0, real_of_int T] = 0" "last [0, real_of_int T] = real_of_int T"
  by (simp_all add: strictly_increasing_def T_def)

lemma Semiflow_forward_euler_Inr:
  "Semiflow_forward odeint_euler odeint_euler self x et = Inr (r, x', self') \<longleftrightarrow>
     (\<exists>u out y0' dyn'.
        x_aug_of self x = Inr u \<and>
        odeint_euler ((dynamics self)\<lparr>nfe := 0\<rparr>) u
          (case et of None \<Rightarrow> [0, real_of_int T] | Some ts \<Rightarrow> ts) dt = Inr (out, y0', dyn') \<and>
        x' = (if 0 < augment_dim (dynamics self) then x else y0') \<and>
        self' = self\<lparr>dynamics := dyn'\<rparr> \<and>
        (case et of None \<Rightarrow> (\<exists>s. getitem out 1 = Inr s \<and> r = Rank2 s)
                  | Some ts \<Rightarrow> r = Rank3 out))"
proof -
  have xa: "x_aug_of (self\<lparr>dynamics := (dynamics self)\<lparr>nfe := 0\<rparr>\<rparr>) x = x_aug_of self x"
    by (simp add: x_aug_of_def)
  show ?thesis
  proof (cases "x_aug_of self x")
    case (Inl e)
    then show ?thesis
      by (simp add: Semiflow_forward_def Let_def xa)
  next
    case u: (Inr u)
    show ?thesis
    proof (cases "odeint_euler ((dynamics self)\<lparr>nfe := 0\<rparr>) u
                    (case et of None \<Rightarrow> [0, real_of_int T] | Some ts \<Rightarrow> ts) dt")
      case (Inl e)
      with u show ?thesis
        by (cases et) (simp_all add: Semiflow_forward_def Let_def xa)
    next
      case (Inr res)
      obtain out y0' dyn' where "res = (out, y0', dyn')" by (cases res)
      with Inr u show ?thesis
        by (cases et) (auto simp add: Semiflow_forward_def Let_def xa and_then_Inr_iff)
    qed
  qed
qed

text \<open>
  C6, amended: for every \<open>n \<ge> 2\<close>, \<^verbatim>\<open>torch.linspace(0, T, n)\<close> is a grid of exactly \<open>n\<close>
  equally spaced, strictly increasing times from 0 to \<open>T\<close>; and whenever
  \<^verbatim>\<open>Semiflow.forward(x, eval_times=None)\<close> returns a terminal state under the Euler
  solver, \<^verbatim>\<open>Semiflow.trajectory(x, n)\<close> returns exactly \<open>n\<close> states (with the same
  effect on \<open>x\<close> and on the object), the first of them the possibly augmented input
  and the last of them that terminal state.
\<close>

theorem trajectory_states:
  assumes n: "2 \<le> n"
    and fw: "Semiflow_forward odeint_euler odeint_euler self x None = Inr (r, x', self')"
  shows "length (linspace 0 (real_of_int T) n) = n \<and>
         hd (linspace 0 (real_of_int T) n) = 0 \<and>
         last (linspace 0 (real_of_int T) n) = real_of_int T \<and>
         strictly_increasing (linspace 0 (real_of_int T) n) \<and>
         (\<forall>i. Suc i < n \<longrightarrow>
            linspace 0 (real_of_int T) n ! Suc i - linspace 0 (real_of_int T) n ! i
              = real_of_int T / real (n - 1)) \<and>
         (\<exists>states x_aug.
            Semiflow_trajectory odeint_euler odeint_euler self x n = Inr (Rank3 states, x', self') \<and>
            length states = n \<and>
            x_aug_of self x = Inr x_aug \<and> hd states = x_aug \<and>
            r = Rank2 (last states))"
proof -
  let ?d = "(dynamics self)\<lparr>nfe := 0\<rparr>"
  let ?T = "real_of_int T"
  let ?ts = "linspace 0 ?T n"
  from fw obtain u out y0' dyn' s where
    xa: "x_aug_of self x = Inr u" and
    od: "odeint_euler ?d u [0, ?T] dt = Inr (out, y0', dyn')" and
    x': "x' = (if 0 < augment_dim (dynamics self) then x else y0')" and
    self': "self' = self\<lparr>dynamics := dyn'\<rparr>" and
    g: "getitem out 1 = Inr s" and r: "r = Rank2 s"
    unfolding Semiflow_forward_euler_Inr by auto
  from od obtain seen where
    la: "euler_loop ?d default_steps u None [?T] [u] = Inr (out, seen, dyn')" and
    y0': "y0' = (case seen of None \<Rightarrow> u | Some c \<Rightarrow> c)"
    unfolding odeint_euler_default [OF default_span]
    by (auto simp add: and_then_Inr_iff split: prod.splits)
  from euler_loop_last [OF default_steps_facts(1-4) _ _ _ la] have
    lenA: "length out = 2" and
    oneA: "euler_loop ?d default_steps u None [?T] [] = Inr ([last out], seen, dyn')"
    by simp_all
  from lenA obtain a b where "out = [a, b]"
    by (cases out; cases "tl out") auto
  with g have s: "s = last out"
    by (simp add: getitem_def)
  have Tpos: "0 < ?T" by (simp add: T_def)
  note ls = linspace_facts [OF n Tpos]
  from ls(1) n have ne: "?ts \<noteq> []" and tne: "tl ?ts \<noteq> []"
    by (auto simp add: length_0_conv [symmetric] simp del: length_0_conv)
  from tne have tl_last: "last (tl ?ts) = ?T"
    using ls(3) by (simp add: last_tl)
  from ls(6) have tl_le: "\<forall>s\<in>set (tl ?ts). s \<le> ?T"
    by (meson list.set_sel(2) ne)
  from euler_loop_other_times [OF la] obtain solB where
    lb: "euler_loop ?d default_steps u None (tl ?ts) [u] = Inr (solB, seen, dyn')"
    by blast
  from euler_loop_last [OF default_steps_facts(1-4) tne tl_last tl_le lb] have
    lenB: "length solB = 1 + length (tl ?ts)" and
    tkB: "take 1 solB = [u]" and
    oneB: "euler_loop ?d default_steps u None [?T] [] = Inr ([last solB], seen, dyn')"
    by simp_all
  from lenB ls(1) n have len: "length solB = n" by simp
  from tkB have hdB: "hd solB = u"
    by (cases solB) simp_all
  from oneA oneB have lastB: "last solB = last out" by simp
  have "odeint_euler ?d u ?ts dt = Inr (solB, y0', dyn')"
    unfolding odeint_euler_default [OF ne ls(4) ls(2) ls(3)] using lb y0' by simp
  then have "Semiflow_trajectory odeint_euler odeint_euler self x n = Inr (Rank3 solB, x', self')"
    unfolding Semiflow_trajectory_def Let_def Semiflow_forward_euler_Inr
    using xa x' self' by simp
  with len xa hdB lastB r s ls(1-5) show ?thesis by simp
qed

theorem trajectory_states_witness:
  "\<exists>states.
     Semiflow_trajectory odeint_euler odeint_euler flow_ex [[0]] 3
       = Inr (Rank3 states, [[0]], flow_ex\<lparr>dynamics := dyn_ex\<lparr>nfe := 15\<rparr>\<rparr>) \<and>
     length states = 3 \<and> hd states = [[0]] \<and> Rank2 [[30]] = Rank2 (last states)"
proof -
  have n: "(2::nat) \<le> 3" by simp
  have fw: "Semiflow_forward odeint_euler odeint_euler flow_ex [[0]] None
          = Inr (Rank2 [[30]], [[0]], flow_ex\<lparr>dynamics := dyn_ex\<lparr>nfe := 15\<rparr>\<rparr>)"
    by (simp add: eval_defs upt_rec)
  have xa: "x_aug_of flow_ex [[0]] = Inr [[0]]"
    by (simp add: eval_defs)
  from trajectory_states [OF n fw] xa show ?thesis
    by auto
qed

text \<open>
  The claim as stated also covers \<open>n = 1\<close>. There the grid is the single time 0,
  the solver takes no step, and the one state returned is the input, not the
  terminal state: on the example model \<^verbatim>\<open>trajectory([[0]], 1)\<close> is \<open>[[[0]]]\<close> while
  \<^verbatim>\<open>forward([[0]])\<close> is \<open>[[30]]\<close>.
\<close>

theorem trajectory_single_point:
  "Semiflow_trajectory odeint_euler odeint_euler flow_ex [[0]] 1
     = Inr (Rank3 [[[0]]], [[0]], flow_ex\<lparr>dynamics := dyn_ex\<lparr>nfe := 0\<rparr>\<rparr>) \<and>
   Semiflow_forward odeint_euler odeint_euler flow_ex [[0]] None
     = Inr (Rank2 [[30]], [[0]], flow_ex\<lparr>dynamics := dyn_ex\<lparr>nfe := 15\<rparr>\<rparr>) \<and>
   Rank2 (last [[[0]]]) \<noteq> Rank2 [[30]]"
  by (simp add: eval_defs upt_rec)


subsection \<open>The evaluation counter\<close>







subsection \<open>Augmentation and the shape of the states\<close>









subsection \<open>The zero parameter bank\<close>

















end
